theory Spec2Isabelle
  imports Complex_Main "HOL-Library.Word" "HOL-Library.Product_Lexorder"
    "HOL-Library.Log_Nat"
begin

section \<open>Data model of image-match.ts\<close>

text \<open>
  A JavaScript number is a double: a finite value, an infinity or NaN (the two zeros are
  not told apart). The coordinates and sizes of a match are whole numbers of pixels,
  written as integers; what is computed from them is a number, rounded as doubles are.
  Confidence and scale are real numbers. The clock counts integer milliseconds, as
  \<^verbatim>\<open>Date.now()\<close> returns them. An optional field of an interface is an \<open>option\<close>.
\<close>

datatype number = Finite real | PosInfinity | NegInfinity | NaN

type_synonym byte = "8 word"
type_synonym Buffer = "byte list"

record MatchConfig =
  searchMultipleScales :: "bool option"
  useGrayscale :: "bool option"
  scaleSteps :: "real list option"
  confidence :: "real option"
  limit :: "int option"

record MatchConfigJs =
  js_searchMultipleScales :: "bool option"
  js_useGrayscale :: "bool option"
  js_scaleSteps :: "real list option"
  js_confidence :: "real option"
  js_limit :: "int option"

record MatchResult =
  m_x :: int
  m_y :: int
  m_width :: int
  m_height :: int
  m_confidence :: real
  m_scale :: real

record MatchResultJs =
  mjs_x :: int
  mjs_y :: int
  mjs_width :: int
  mjs_height :: int
  mjs_confidence :: real
  mjs_scale :: real

record ImageResource =
  buffer :: Buffer
  path :: "string option"

record Point =
  p_x :: number
  p_y :: number

record Bounds =
  left :: number
  top :: number
  right :: number
  bottom :: number

section \<open>Image loading and conversions\<close>

definition imageResourceFromBuffer :: "Buffer \<Rightarrow> ImageResource" where
  "imageResourceFromBuffer b = \<lparr>buffer = b, path = None\<rparr>"

definition toMatchConfigJs :: "MatchConfig option \<Rightarrow> MatchConfigJs option" where
  "toMatchConfigJs config =
     (case config of
        None \<Rightarrow> None
      | Some c \<Rightarrow> Some \<lparr>js_searchMultipleScales = searchMultipleScales c,
                        js_useGrayscale = useGrayscale c,
                        js_scaleSteps = scaleSteps c,
                        js_confidence = confidence c,
                        js_limit = limit c\<rparr>)"

definition fromMatchResultJs :: "MatchResultJs \<Rightarrow> MatchResult" where
  "fromMatchResultJs result =
     \<lparr>m_x = mjs_x result, m_y = mjs_y result,
      m_width = mjs_width result, m_height = mjs_height result,
      m_confidence = mjs_confidence result, m_scale = mjs_scale result\<rparr>"

section \<open>Arithmetic on numbers\<close>

text \<open>
  \<open>double v\<close> is the double nearest to the real \<open>v\<close>, a tie going to the one with
  an even significand, and an infinity when the rounded value is out of range. A double
  has 53 significant bits; the spacing of the doubles around \<open>v\<close> is \<open>2\<close> to the power
  of the binary exponent of \<open>v\<close> (at least -1022) minus 52.
\<close>

definition pow2 :: "int \<Rightarrow> real" where
  "pow2 k = (if 0 \<le> k then 2 ^ nat k else 1 / 2 ^ nat (- k))"

definition exponent :: "real \<Rightarrow> int" where
  "exponent v = bitlen \<lfloor>\<bar>v\<bar> * pow2 1074\<rfloor> - 1075"

definition round_even :: "real \<Rightarrow> int" where
  "round_even r =
     (let f = \<lfloor>r\<rfloor>; d = r - of_int f
      in if d < 1 / 2 then f
         else if 1 / 2 < d then f + 1
         else if even f then f else f + 1)"

definition double :: "real \<Rightarrow> number" where
  "double v =
     (let q = pow2 (max (exponent v) (- 1022) - 52);
          r = q * of_int (round_even (v / q))
      in if pow2 1024 \<le> \<bar>r\<bar> then (if 0 < v then PosInfinity else NegInfinity)
         else Finite r)"

text \<open>The number of an integer field, and the operators the module applies to numbers.\<close>

definition num :: "int \<Rightarrow> number" where
  "num n = Finite (of_int n)"

fun js_add :: "number \<Rightarrow> number \<Rightarrow> number" where
  "js_add (Finite a) (Finite b) = double (a + b)"
| "js_add NaN b = NaN"
| "js_add a NaN = NaN"
| "js_add PosInfinity NegInfinity = NaN"
| "js_add NegInfinity PosInfinity = NaN"
| "js_add PosInfinity b = PosInfinity"
| "js_add a PosInfinity = PosInfinity"
| "js_add NegInfinity b = NegInfinity"
| "js_add a NegInfinity = NegInfinity"

text \<open>Division by the literal 2.\<close>

fun js_halve :: "number \<Rightarrow> number" where
  "js_halve (Finite a) = double (a / 2)"
| "js_halve a = a"

section \<open>Utility functions\<close>

text \<open>\<^verbatim>\<open>Math.round\<close> rounds to the nearest integer, a tie towards plus infinity.\<close>

definition Math_round :: "real \<Rightarrow> int" where
  "Math_round v = \<lfloor>v + 1 / 2\<rfloor>"

text \<open>\<^verbatim>\<open>Math.round\<close> of a number; its result is a whole number, which is a double.\<close>

fun js_round :: "number \<Rightarrow> number" where
  "js_round (Finite v) = Finite (of_int (Math_round v))"
| "js_round a = a"

definition getMatchCenter :: "MatchResult \<Rightarrow> Point" where
  "getMatchCenter match =
     \<lparr>p_x = js_round (js_add (num (m_x match)) (js_halve (num (m_width match)))),
      p_y = js_round (js_add (num (m_y match)) (js_halve (num (m_height match))))\<rparr>"

definition getMatchBounds :: "MatchResult \<Rightarrow> Bounds" where
  "getMatchBounds match =
     \<lparr>left = num (m_x match), top = num (m_y match),
      right = js_add (num (m_x match)) (num (m_width match)),
      bottom = js_add (num (m_y match)) (num (m_height match))\<rparr>"

section \<open>The world outside the module\<close>

text \<open>
  The module reads the clock, calls the native functions of \<^verbatim>\<open>@tego/bot\<close> and sets
  timers. The world is the clock and the history of these calls; every call appends its
  event, so a property of a run can be read off the events the run added.
\<close>

datatype 'e event =
    FindOnScreen "'e + MatchResult option"
  | FindAllOnScreen "'e + MatchResult list"
  | FindInRegion "'e + MatchResult option"
  | FindAllInRegion "'e + MatchResult list"
  | Sleep int

record 'e world =
  now :: int
  history :: "'e event list"

text \<open>
  A native call answers with a value or throws (\<open>Inl\<close>), and takes some milliseconds.
  Its answer may depend on the whole world: the time and what happened before. A timer
  fires \<open>timer_lag\<close> milliseconds late.
\<close>

record 'e runtime =
  bot_findOnScreen :: "'e world \<Rightarrow> Buffer \<Rightarrow> MatchConfigJs option
      \<Rightarrow> ('e + MatchResultJs option) \<times> nat"
  bot_findAllOnScreen :: "'e world \<Rightarrow> Buffer \<Rightarrow> MatchConfigJs option
      \<Rightarrow> ('e + MatchResultJs list) \<times> nat"
  bot_findInRegion :: "'e world \<Rightarrow> Buffer \<Rightarrow> int \<Rightarrow> int \<Rightarrow> int \<Rightarrow> int
      \<Rightarrow> MatchConfigJs option \<Rightarrow> ('e + MatchResultJs option) \<times> nat"
  bot_findAllInRegion :: "'e world \<Rightarrow> Buffer \<Rightarrow> int \<Rightarrow> int \<Rightarrow> int \<Rightarrow> int
      \<Rightarrow> MatchConfigJs option \<Rightarrow> ('e + MatchResultJs list) \<times> nat"
  timer_lag :: "'e world \<Rightarrow> int \<Rightarrow> nat"

definition Date_now :: "'e world \<Rightarrow> int" where
  "Date_now w = now w"

definition elapse :: "nat \<Rightarrow> 'e event \<Rightarrow> 'e world \<Rightarrow> 'e world" where
  "elapse d ev w = w\<lparr>now := now w + int d, history := history w @ [ev]\<rparr>"

text \<open>
  \<open>sleep\<close> resolves its promise from \<^verbatim>\<open>setTimeout\<close>. Node.js sets a delay below 1
  or above 2147483647 to 1, and the timer fires no earlier than the delay, so a sleep
  takes at least one millisecond on the clock.
\<close>

definition timer_delay :: "int \<Rightarrow> nat" where
  "timer_delay ms = (if ms < 1 \<or> 2147483647 < ms then 1 else nat ms)"

definition sleep :: "'e runtime \<Rightarrow> int \<Rightarrow> 'e world \<Rightarrow> 'e world" where
  "sleep rt ms w = elapse (timer_delay ms + timer_lag rt w ms) (Sleep ms) w"

section \<open>Core matching functions\<close>

definition findOnScreen ::
  "'e runtime \<Rightarrow> ImageResource \<Rightarrow> MatchConfig option \<Rightarrow> 'e world
     \<Rightarrow> ('e + MatchResult option) \<times> 'e world" where
  "findOnScreen rt template config w =
     (case bot_findOnScreen rt w (buffer template) (toMatchConfigJs config) of
        (answer, d) \<Rightarrow>
          (let r = (case answer of
                      Inl e \<Rightarrow> Inl e
                    | Inr result \<Rightarrow>
                        Inr (case result of
                               Some res \<Rightarrow> Some (fromMatchResultJs res)
                             | None \<Rightarrow> None))
           in (r, elapse d (FindOnScreen r) w)))"

definition findAllOnScreen ::
  "'e runtime \<Rightarrow> ImageResource \<Rightarrow> MatchConfig option \<Rightarrow> 'e world
     \<Rightarrow> ('e + MatchResult list) \<times> 'e world" where
  "findAllOnScreen rt template config w =
     (case bot_findAllOnScreen rt w (buffer template) (toMatchConfigJs config) of
        (answer, d) \<Rightarrow>
          (let r = (case answer of
                      Inl e \<Rightarrow> Inl e
                    | Inr results \<Rightarrow> Inr (map fromMatchResultJs results))
           in (r, elapse d (FindAllOnScreen r) w)))"

definition findInRegion ::
  "'e runtime \<Rightarrow> ImageResource \<Rightarrow> int \<Rightarrow> int \<Rightarrow> int \<Rightarrow> int \<Rightarrow> MatchConfig option
     \<Rightarrow> 'e world \<Rightarrow> ('e + MatchResult option) \<times> 'e world" where
  "findInRegion rt template x y width height config w =
     (case bot_findInRegion rt w (buffer template) x y width height
             (toMatchConfigJs config) of
        (answer, d) \<Rightarrow>
          (let r = (case answer of
                      Inl e \<Rightarrow> Inl e
                    | Inr result \<Rightarrow>
                        Inr (case result of
                               Some res \<Rightarrow> Some (fromMatchResultJs res)
                             | None \<Rightarrow> None))
           in (r, elapse d (FindInRegion r) w)))"

definition findAllInRegion ::
  "'e runtime \<Rightarrow> ImageResource \<Rightarrow> int \<Rightarrow> int \<Rightarrow> int \<Rightarrow> int \<Rightarrow> MatchConfig option
     \<Rightarrow> 'e world \<Rightarrow> ('e + MatchResult list) \<times> 'e world" where
  "findAllInRegion rt template x y width height config w =
     (case bot_findAllInRegion rt w (buffer template) x y width height
             (toMatchConfigJs config) of
        (answer, d) \<Rightarrow>
          (let r = (case answer of
                      Inl e \<Rightarrow> Inl e
                    | Inr results \<Rightarrow> Inr (map fromMatchResultJs results))
           in (r, elapse d (FindAllInRegion r) w)))"

lemma now_elapse: "now (elapse d ev w) = now w + int d"
  by (simp add: elapse_def)

lemma history_elapse: "history (elapse d ev w) = history w @ [ev]"
  by (simp add: elapse_def)

lemma now_sleep: "now w + 1 \<le> now (sleep rt ms w)"
  by (simp add: sleep_def now_elapse timer_delay_def)

lemma history_sleep: "history (sleep rt ms w) = history w @ [Sleep ms]"
  by (simp add: sleep_def history_elapse)

lemma now_findOnScreen:
  "findOnScreen rt template config w = (r, w1) \<Longrightarrow> now w \<le> now w1"
  by (auto simp: findOnScreen_def now_elapse Let_def split: prod.splits)

lemma history_findOnScreen:
  "findOnScreen rt template config w = (r, w1) \<Longrightarrow>
     history w1 = history w @ [FindOnScreen r]"
  by (auto simp: findOnScreen_def history_elapse Let_def split: prod.splits)

lemma poll_progress:
  "(r, w1) = findOnScreen rt template config w \<Longrightarrow> now w < now (sleep rt interval w1)"
  using now_findOnScreen [of rt template config w r w1] now_sleep [of w1 rt interval]
  by simp

section \<open>The pollers\<close>

text \<open>A default parameter value stands in when the argument is left out.\<close>

definition with_default :: "'a \<Rightarrow> 'a option \<Rightarrow> 'a" where
  "with_default d arg = (case arg of None \<Rightarrow> d | Some v \<Rightarrow> v)"

text \<open>
  The timeout and the interval are integer milliseconds; \<open>None\<close> is an argument left
  out. A rejected \<^verbatim>\<open>await\<close> is the result \<open>Inl\<close>. Every round of a poller sleeps at
  least one millisecond, so the time left until the deadline decreases: the loops
  terminate, and the pollers are total functions.
\<close>

function waitFor_loop ::
  "'e runtime \<Rightarrow> ImageResource \<Rightarrow> int \<Rightarrow> int \<Rightarrow> MatchConfig option \<Rightarrow> int
     \<Rightarrow> 'e world \<Rightarrow> ('e + MatchResult option) \<times> 'e world" where
  "waitFor_loop rt template timeout interval config startTime w =
     (if Date_now w - startTime < timeout then
        (case findOnScreen rt template config w of
           (Inl e, w1) \<Rightarrow> (Inl e, w1)
         | (Inr (Some match), w1) \<Rightarrow> (Inr (Some match), w1)
         | (Inr None, w1) \<Rightarrow>
             waitFor_loop rt template timeout interval config startTime
               (sleep rt interval w1))
      else (Inr None, w))"
  by pat_completeness auto
termination
  by (relation "measure (\<lambda>(rt, template, timeout, interval, config, startTime, w).
                  nat (timeout - (now w - startTime)))")
     (auto simp: Date_now_def intro: poll_progress)

declare waitFor_loop.simps [simp del]

definition waitFor ::
  "'e runtime \<Rightarrow> ImageResource \<Rightarrow> int option \<Rightarrow> int option \<Rightarrow> MatchConfig option
     \<Rightarrow> 'e world \<Rightarrow> ('e + MatchResult option) \<times> 'e world" where
  "waitFor rt template timeout interval config w =
     (let timeout = with_default 10000 timeout;
          interval = with_default 500 interval;
          startTime = Date_now w
      in waitFor_loop rt template timeout interval config startTime w)"

function waitForGone_loop ::
  "'e runtime \<Rightarrow> ImageResource \<Rightarrow> int \<Rightarrow> int \<Rightarrow> MatchConfig option \<Rightarrow> int
     \<Rightarrow> 'e world \<Rightarrow> ('e + bool) \<times> 'e world" where
  "waitForGone_loop rt template timeout interval config startTime w =
     (if Date_now w - startTime < timeout then
        (case findOnScreen rt template config w of
           (Inl e, w1) \<Rightarrow> (Inl e, w1)
         | (Inr None, w1) \<Rightarrow> (Inr True, w1)
         | (Inr (Some match), w1) \<Rightarrow>
             waitForGone_loop rt template timeout interval config startTime
               (sleep rt interval w1))
      else (Inr False, w))"
  by pat_completeness auto
termination
  by (relation "measure (\<lambda>(rt, template, timeout, interval, config, startTime, w).
                  nat (timeout - (now w - startTime)))")
     (auto simp: Date_now_def intro: poll_progress)

declare waitForGone_loop.simps [simp del]

definition waitForGone ::
  "'e runtime \<Rightarrow> ImageResource \<Rightarrow> int option \<Rightarrow> int option \<Rightarrow> MatchConfig option
     \<Rightarrow> 'e world \<Rightarrow> ('e + bool) \<times> 'e world" where
  "waitForGone rt template timeout interval config w =
     (let timeout = with_default 10000 timeout;
          interval = with_default 500 interval;
          startTime = Date_now w
      in waitForGone_loop rt template timeout interval config startTime w)"

subsection \<open>Any number as timeout\<close>

text \<open>
  The timeout is a number, so it may also be NaN or an infinity. \<open>js_less\<close> is the
  comparison \<^verbatim>\<open>Date.now() - startTime < timeout\<close>: false against NaN, true against
  plus infinity. With these timeouts a loop may run forever, so the pollers that take any
  number return an \<open>option\<close>: \<open>None\<close> is a call that never returns. At a finite
  timeout they return what \<open>waitFor\<close> and \<open>waitForGone\<close> return at the deadline
  rounded up to whole milliseconds (\<open>waitFor_js_finite\<close> and
  \<open>waitForGone_js_finite\<close> below). The interval stays in whole milliseconds:
  whatever number it is, the timer waits at least one millisecond.
\<close>

fun js_less :: "int \<Rightarrow> number \<Rightarrow> bool" where
  "js_less e (Finite t) = (of_int e < t)"
| "js_less e PosInfinity = True"
| "js_less e NegInfinity = False"
| "js_less e NaN = False"

partial_function (option) waitFor_js_loop ::
  "'e runtime \<Rightarrow> ImageResource \<Rightarrow> number \<Rightarrow> int \<Rightarrow> MatchConfig option \<Rightarrow> int
     \<Rightarrow> 'e world \<Rightarrow> (('e + MatchResult option) \<times> 'e world) option" where
  "waitFor_js_loop rt template timeout interval config startTime w =
     (if js_less (Date_now w - startTime) timeout then
        (case findOnScreen rt template config w of
           (Inl e, w1) \<Rightarrow> Some (Inl e, w1)
         | (Inr (Some match), w1) \<Rightarrow> Some (Inr (Some match), w1)
         | (Inr None, w1) \<Rightarrow>
             waitFor_js_loop rt template timeout interval config startTime
               (sleep rt interval w1))
      else Some (Inr None, w))"

declare waitFor_js_loop.simps [code]

definition waitFor_js ::
  "'e runtime \<Rightarrow> ImageResource \<Rightarrow> number option \<Rightarrow> int option \<Rightarrow> MatchConfig option
     \<Rightarrow> 'e world \<Rightarrow> (('e + MatchResult option) \<times> 'e world) option" where
  "waitFor_js rt template timeout interval config w =
     (let timeout = with_default (Finite 10000) timeout;
          interval = with_default 500 interval;
          startTime = Date_now w
      in waitFor_js_loop rt template timeout interval config startTime w)"




section \<open>The native matching engine\<close>

text \<open>
  Modelled from the spec: the errors of the native matching engine of
  \<^verbatim>\<open>@tego/bot\<close> (section 7), whose code is not among the sources.
  \<open>CaptureError\<close> stands for a failure of the capture provider, which is
  opaque to the engine.
\<close>

datatype MatchError = ValidationError | BoundsError | IOError | DecodeError | CaptureError

text \<open>
  Modelled from the spec: the fully defaulted configuration the Config Normalizer produces
  (section 3).
\<close>

record NormalizedConfig =
  n_searchMultipleScales :: bool
  n_useGrayscale :: bool
  n_scaleSteps :: "real list"
  n_confidence :: real
  n_limit :: int

text \<open>
  Modelled from the spec: a region of the screen in absolute coordinates (section 3).
\<close>

record ScreenRegion =
  r_x :: int
  r_y :: int
  r_width :: int
  r_height :: int

text \<open>
  Modelled from the spec: what the spec leaves open about the native engine, as
  parameters. The image codec, resizing, the luminance conversion and the similarity
  metric are not specified; neither are the window of the local suppression
  (\<open>same_peak\<close>) nor the overlap threshold of the cross-scale suppression
  (\<open>overlapping\<close>). The capture provider and the screen bounds are external.
  \<open>search_cost\<close> is the time one search takes.
\<close>

record 'img engine =
  decode :: "Buffer \<Rightarrow> 'img option"
  image_width :: "'img \<Rightarrow> nat"
  image_height :: "'img \<Rightarrow> nat"
  resize :: "nat \<Rightarrow> nat \<Rightarrow> 'img \<Rightarrow> 'img"
  luminance :: "'img \<Rightarrow> 'img"
  similarity :: "'img \<Rightarrow> 'img \<Rightarrow> nat \<Rightarrow> nat \<Rightarrow> real"
  same_peak :: "MatchResultJs \<Rightarrow> MatchResultJs \<Rightarrow> bool"
  overlapping :: "MatchResultJs \<Rightarrow> MatchResultJs \<Rightarrow> bool"
  screen_width :: "MatchError world \<Rightarrow> int"
  screen_height :: "MatchError world \<Rightarrow> int"
  capture :: "MatchError world \<Rightarrow> ScreenRegion option \<Rightarrow> MatchError + 'img"
  search_cost :: nat

text \<open>
  Modelled from the spec: the Config Normalizer (section 4.2). It fills in the defaults
  and fails with \<open>ValidationError\<close> when the confidence is outside [0,1], the
  limit is not positive, or multi-scale search is on and the scale steps are empty or
  contain a non-positive value.
\<close>

definition normalizeConfig :: "MatchConfigJs option \<Rightarrow> MatchError + NormalizedConfig" where
  "normalizeConfig config =
     (let n = (case config of
                 None \<Rightarrow>
                   \<lparr>n_searchMultipleScales = True, n_useGrayscale = False,
                    n_scaleSteps = [1, 9 / 10, 8 / 10, 7 / 10, 6 / 10, 5 / 10],
                    n_confidence = 8 / 10, n_limit = 100\<rparr>
               | Some c \<Rightarrow>
                   \<lparr>n_searchMultipleScales = with_default True (js_searchMultipleScales c),
                    n_useGrayscale = with_default False (js_useGrayscale c),
                    n_scaleSteps = with_default [1, 9 / 10, 8 / 10, 7 / 10, 6 / 10, 5 / 10]
                                     (js_scaleSteps c),
                    n_confidence = with_default (8 / 10) (js_confidence c),
                    n_limit = with_default 100 (js_limit c)\<rparr>)
      in if n_confidence n < 0 \<or> 1 < n_confidence n then Inl ValidationError
         else if n_limit n \<le> 0 then Inl ValidationError
         else if n_searchMultipleScales n
                 \<and> (n_scaleSteps n = [] \<or> list_ex (\<lambda>s. s \<le> 0) (n_scaleSteps n))
           then Inl ValidationError
         else Inr n)"

text \<open>
  Modelled from the spec: a scaled template dimension (section 4.3), rounded to the
  nearest integer and at least 1.
\<close>

definition scaled_size :: "real \<Rightarrow> nat \<Rightarrow> nat" where
  "scaled_size s d = nat (max 1 (Math_round (s * real d)))"

text \<open>
  Modelled from the spec: the Scale Space Generator (section 4.3). Without multi-scale
  search it produces the one scale 1.0; otherwise one scaled template per scale step,
  leaving out every scale whose template exceeds the haystack in either axis.
\<close>

definition scaleSpace ::
  "'img engine \<Rightarrow> NormalizedConfig \<Rightarrow> 'img \<Rightarrow> 'img \<Rightarrow> (real \<times> 'img) list" where
  "scaleSpace eng cfg template haystack =
     (if \<not> n_searchMultipleScales cfg then [(1, template)]
      else map (\<lambda>s. (s, resize eng (scaled_size s (image_width eng template))
                                    (scaled_size s (image_height eng template)) template))
             (filter (\<lambda>s. scaled_size s (image_width eng template) \<le> image_width eng haystack
                          \<and> scaled_size s (image_height eng template)
                               \<le> image_height eng haystack)
                (n_scaleSteps cfg)))"

text \<open>
  Modelled from the spec: non-maximum suppression (sections 4.4 and 4.5). Of the
  candidates, best first, a candidate is kept and its rivals among the later ones are
  dropped.
\<close>

fun suppress :: "('a \<Rightarrow> 'a \<Rightarrow> bool) \<Rightarrow> 'a list \<Rightarrow> 'a list" where
  "suppress rival [] = []"
| "suppress rival (c # cs) = c # suppress rival (filter (\<lambda>d. \<not> rival c d) cs)"

text \<open>
  Modelled from the spec: the ranking of section 4.5, by confidence descending, a tie
  broken in favour of the scale closer to 1.0.
\<close>

definition best_first :: "MatchResultJs list \<Rightarrow> MatchResultJs list" where
  "best_first cands = sort_key (\<lambda>c. (- mjs_confidence c, \<bar>mjs_scale c - 1\<bar>)) cands"

text \<open>
  Modelled from the spec: the positions at which a template of size \<open>tw\<close> by
  \<open>th\<close> lies inside a haystack of size \<open>hw\<close> by \<open>hh\<close>
  (section 4.4).
\<close>

definition positions :: "nat \<Rightarrow> nat \<Rightarrow> nat \<Rightarrow> nat \<Rightarrow> (nat \<times> nat) list" where
  "positions hw hh tw th =
     (if tw \<le> hw \<and> th \<le> hh then List.product [0..<hw - tw + 1] [0..<hh - th + 1] else [])"

text \<open>
  Modelled from the spec: the Matcher (section 4.4) for one scaled template. It scores
  every position, keeps the local maxima and emits those whose confidence reaches the
  configured threshold.
\<close>

definition matcher ::
  "'img engine \<Rightarrow> NormalizedConfig \<Rightarrow> 'img \<Rightarrow> real \<times> 'img \<Rightarrow> MatchResultJs list" where
  "matcher eng cfg haystack st =
     (case st of (s, scaledTemplate) \<Rightarrow>
        (let h = (if n_useGrayscale cfg then luminance eng haystack else haystack);
             t = (if n_useGrayscale cfg then luminance eng scaledTemplate else scaledTemplate);
             scored = map (\<lambda>(x, y).
                        \<lparr>mjs_x = int x, mjs_y = int y,
                         mjs_width = int (image_width eng scaledTemplate),
                         mjs_height = int (image_height eng scaledTemplate),
                         mjs_confidence = similarity eng h t x y, mjs_scale = s\<rparr>)
                      (positions (image_width eng haystack) (image_height eng haystack)
                         (image_width eng scaledTemplate) (image_height eng scaledTemplate));
             peaks = suppress (same_peak eng) (best_first scored)
         in filter (\<lambda>c. n_confidence cfg \<le> mjs_confidence c) peaks))"

text \<open>
  Modelled from the spec: the Result Aggregator (section 4.5): cross-scale suppression,
  ranking, truncation to the limit.
\<close>

definition aggregate ::
  "'img engine \<Rightarrow> NormalizedConfig \<Rightarrow> MatchResultJs list \<Rightarrow> MatchResultJs list" where
  "aggregate eng cfg cands =
     take (nat (n_limit cfg)) (best_first (suppress (overlapping eng) (best_first cands)))"

text \<open>
  Modelled from the spec: a valid region (sections 4.6 and 8) has positive dimensions, a
  non-negative origin and lies within the screen bounds.
\<close>

definition valid_region :: "'img engine \<Rightarrow> MatchError world \<Rightarrow> ScreenRegion \<Rightarrow> bool" where
  "valid_region eng w r =
     (0 < r_width r \<and> 0 < r_height r \<and> 0 \<le> r_x r \<and> 0 \<le> r_y r
      \<and> r_x r + r_width r \<le> screen_width eng w
      \<and> r_y r + r_height r \<le> screen_height eng w)"

text \<open>
  Modelled from the spec: the translation of a region-local result to absolute screen
  coordinates (section 4.6).
\<close>

definition to_absolute :: "ScreenRegion option \<Rightarrow> MatchResultJs \<Rightarrow> MatchResultJs" where
  "to_absolute region c =
     (case region of
        None \<Rightarrow> c
      | Some r \<Rightarrow> c\<lparr>mjs_x := mjs_x c + r_x r, mjs_y := mjs_y c + r_y r\<rparr>)"

text \<open>
  Modelled from the spec: Region Search (section 4.6). The inputs are validated before
  anything is captured; the capture is matched at every generated scale and the candidates
  are aggregated.
\<close>

definition search ::
  "'img engine \<Rightarrow> MatchError world \<Rightarrow> Buffer \<Rightarrow> ScreenRegion option \<Rightarrow> MatchConfigJs option
     \<Rightarrow> MatchError + MatchResultJs list" where
  "search eng w template region config =
     (case normalizeConfig config of
        Inl e \<Rightarrow> Inl e
      | Inr cfg \<Rightarrow>
          if (case region of None \<Rightarrow> False | Some r \<Rightarrow> \<not> valid_region eng w r)
          then Inl BoundsError
          else (case decode eng template of
                  None \<Rightarrow> Inl DecodeError
                | Some t \<Rightarrow>
                    (case capture eng w region of
                       Inl e \<Rightarrow> Inl e
                     | Inr haystack \<Rightarrow>
                         Inr (map (to_absolute region)
                                (aggregate eng cfg
                                   (concat (map (matcher eng cfg haystack)
                                              (scaleSpace eng cfg t haystack))))))))"

text \<open>
  Modelled from the spec: a single-best query returns the head of the ranked list, or null
  when the list is empty (section 4.5).
\<close>

definition best :: "MatchError + MatchResultJs list \<Rightarrow> MatchError + MatchResultJs option" where
  "best found =
     (case found of
        Inl e \<Rightarrow> Inl e
      | Inr [] \<Rightarrow> Inr None
      | Inr (c # cs) \<Rightarrow> Inr (Some c))"

text \<open>
  Modelled from the spec: the four native search functions of
  \<^verbatim>\<open>@tego/bot\<close> that image-match.ts calls (section 4.6), built on
  \<open>search\<close>.
\<close>

definition tego_bot :: "'img engine \<Rightarrow> MatchError runtime" where
  "tego_bot eng =
     \<lparr>bot_findOnScreen = (\<lambda>w template config.
         (best (search eng w template None config), search_cost eng)),
      bot_findAllOnScreen = (\<lambda>w template config.
         (search eng w template None config, search_cost eng)),
      bot_findInRegion = (\<lambda>w template x y width height config.
         (best (search eng w template
                  (Some \<lparr>r_x = x, r_y = y, r_width = width, r_height = height\<rparr>) config),
          search_cost eng)),
      bot_findAllInRegion = (\<lambda>w template x y width height config.
         (search eng w template
            (Some \<lparr>r_x = x, r_y = y, r_width = width, r_height = height\<rparr>) config,
          search_cost eng)),
      timer_lag = (\<lambda>w ms. 0)\<rparr>"

section \<open>Example worlds\<close>

text \<open>A world at time 0 in which nothing has happened yet, a template and a native match.\<close>

definition w0 :: "string world" where
  "w0 = \<lparr>now = 0, history = []\<rparr>"

definition icon :: ImageResource where
  "icon = imageResourceFromBuffer [137, 80, 78, 71]"


text \<open>
  A runtime whose screen search answers by the time of the call and takes 10 ms,
  with timers that fire on time.
\<close>

definition scripted :: "(int \<Rightarrow> string + MatchResultJs option) \<Rightarrow> string runtime" where
  "scripted screen =
     \<lparr>bot_findOnScreen = (\<lambda>w b c. (screen (now w), 10)),
      bot_findAllOnScreen = (\<lambda>w b c. (Inr [], 10)),
      bot_findInRegion = (\<lambda>w b x y width height c. (Inr None, 10)),
      bot_findAllInRegion = (\<lambda>w b x y width height c. (Inr [], 10)),
      timer_lag = (\<lambda>w ms. 0)\<rparr>"




text \<open>
  An engine on a screen 3 pixels wide and 1 high, whose 1 by 1 template matches
  perfectly at x = 1 and poorly elsewhere.
\<close>

definition strip_engine :: "(nat \<times> nat) engine" where
  "strip_engine =
     \<lparr>decode = (\<lambda>b. Some (1, 1)), image_width = fst, image_height = snd,
      resize = (\<lambda>w h t. (w, h)), luminance = (\<lambda>i. i),
      similarity = (\<lambda>h t x y. if x = 1 then 1 else 3 / 10),
      same_peak = (\<lambda>a b. False), overlapping = (\<lambda>a b. False),
      screen_width = (\<lambda>w. 3), screen_height = (\<lambda>w. 1),
      capture = (\<lambda>w r. Inr (3, 1)), search_cost = 10\<rparr>"

definition half_sure :: MatchConfig where
  "half_sure = \<lparr>searchMultipleScales = Some False, useGrayscale = None, scaleSteps = None,
                 confidence = Some (1 / 2), limit = None\<rparr>"

definition boot :: "MatchError world" where
  "boot = \<lparr>now = 0, history = []\<rparr>"

definition spot :: MatchResult where
  "spot = \<lparr>m_x = 1, m_y = 0, m_width = 1, m_height = 1, m_confidence = 1, m_scale = 1\<rparr>"

text \<open>
  Matches well inside the range of exact double arithmetic, and two at its edge.
\<close>

definition box :: MatchResult where
  "box = \<lparr>m_x = 10, m_y = 20, m_width = 4, m_height = 6, m_confidence = 9 / 10, m_scale = 1\<rparr>"

definition odd_box :: MatchResult where
  "odd_box = \<lparr>m_x = 10, m_y = 20, m_width = 5, m_height = 7, m_confidence = 9 / 10,
              m_scale = 1\<rparr>"

definition edge :: MatchResult where
  "edge = \<lparr>m_x = 9007199254740991, m_y = 9007199254740992, m_width = 2, m_height = 1,
           m_confidence = 1, m_scale = 1\<rparr>"

definition far :: MatchResult where
  "far = \<lparr>m_x = 9007199254740992, m_y = 0, m_width = 2, m_height = 2,
          m_confidence = 1, m_scale = 1\<rparr>"

section \<open>Runs of the pollers\<close>

text \<open>The events a run added to the history: those of \<open>w'\<close> after those of \<open>w\<close>.\<close>

definition since :: "'e world \<Rightarrow> 'e world \<Rightarrow> 'e event list" where
  "since w w' = drop (length (history w)) (history w')"

text \<open>
  How a run of \<open>waitFor\<close> ends, \<open>tail\<close> being its last events: at the deadline
  with nothing more, or with the search that found a match, or with the search that threw.
\<close>

definition waitFor_ending ::
  "'e runtime \<Rightarrow> ImageResource \<Rightarrow> MatchConfig option \<Rightarrow> int \<Rightarrow> int
     \<Rightarrow> ('e + MatchResult option) \<Rightarrow> 'e world \<Rightarrow> 'e event list \<Rightarrow> bool" where
  "waitFor_ending rt template config timeout startTime r w' tail =
     ((r = Inr None \<and> tail = [] \<and> timeout \<le> now w' - startTime)
      \<or> (\<exists>m w1. r = Inr (Some m) \<and> tail = [FindOnScreen (Inr (Some m))]
            \<and> findOnScreen rt template config w1 = (r, w'))
      \<or> (\<exists>e w1. r = Inl e \<and> tail = [FindOnScreen (Inl e)]
            \<and> findOnScreen rt template config w1 = (r, w')))"


section \<open>The shape of a run\<close>

text \<open>
  A run of \<open>waitFor\<close> adds rounds of a search that found nothing and a sleep of the
  interval, and then ends in one of three ways. It is proved by induction along the loop.
\<close>

lemma since_append: "history w' = history w @ evs \<Longrightarrow> since w w' = evs"
  by (simp add: since_def)

lemma waitFor_loop_run:
  "waitFor_loop rt template timeout interval config startTime w = (r, w') \<Longrightarrow>
     \<exists>n tail. history w' = history w
            @ concat (replicate n [FindOnScreen (Inr None), Sleep interval]) @ tail
       \<and> waitFor_ending rt template config timeout startTime r w' tail"
proof (induction rt template timeout interval config startTime w rule: waitFor_loop.induct)
  case (1 rt template timeout interval config startTime w)
  note unfold = waitFor_loop.simps [of rt template timeout interval config startTime w]
  show ?case
  proof (cases "Date_now w - startTime < timeout")
    case False
    with "1.prems" have "r = Inr None" "w' = w"
      by (simp_all add: unfold)
    with False have "history w' = history w
          @ concat (replicate 0 [FindOnScreen (Inr None), Sleep interval]) @ []
      \<and> waitFor_ending rt template config timeout startTime r w' []"
      by (simp add: Date_now_def waitFor_ending_def)
    then show ?thesis by (intro exI)
  next
    case True
    obtain a w1 where f: "findOnScreen rt template config w = (a, w1)"
      by (cases "findOnScreen rt template config w")
    have h1: "history w1 = history w @ [FindOnScreen a]"
      by (rule history_findOnScreen [OF f])
    show ?thesis
    proof (cases "a = Inr None")
      case False
      with True f "1.prems" have stop: "r = a" "w' = w1"
        by (auto simp: unfold split: sum.splits option.splits)
      from False have "(\<exists>m. a = Inr (Some m)) \<or> (\<exists>e. a = Inl e)"
        by (cases a) auto
      with f stop have "waitFor_ending rt template config timeout startTime r w' [FindOnScreen a]"
        unfolding waitFor_ending_def by blast
      with h1 stop have "history w' = history w
          @ concat (replicate 0 [FindOnScreen (Inr None), Sleep interval]) @ [FindOnScreen a]
         \<and> waitFor_ending rt template config timeout startTime r w' [FindOnScreen a]"
        by simp
      then show ?thesis by (intro exI)
    next
      case null: True
      with True f "1.prems"
      have rec: "waitFor_loop rt template timeout interval config startTime
                   (sleep rt interval w1) = (r, w')"
        by (simp add: unfold)
      have f': "(a, w1) = findOnScreen rt template config w" using f by simp
      from "1.IH" [OF True f' null refl rec]
      obtain n tail where ih: "history w' = history (sleep rt interval w1)
            @ concat (replicate n [FindOnScreen (Inr None), Sleep interval]) @ tail"
        and alt: "waitFor_ending rt template config timeout startTime r w' tail"
        by blast
      from ih h1 null have "history w' = history w
            @ concat (replicate (Suc n) [FindOnScreen (Inr None), Sleep interval]) @ tail"
        by (simp add: history_sleep)
      with alt have "history w' = history w
            @ concat (replicate (Suc n) [FindOnScreen (Inr None), Sleep interval]) @ tail
          \<and> waitFor_ending rt template config timeout startTime r w' tail"
        by simp
      then show ?thesis by (intro exI)
    qed
  qed
qed


lemma waitFor_run:
  assumes "waitFor rt template timeout interval config w = (r, w')"
  shows "\<exists>n tail. since w w'
            = concat (replicate n [FindOnScreen (Inr None),
                                   Sleep (with_default 500 interval)]) @ tail
       \<and> waitFor_ending rt template config (with_default 10000 timeout) (now w) r w' tail"
proof -
  from assms have "waitFor_loop rt template (with_default 10000 timeout)
      (with_default 500 interval) config (now w) w = (r, w')"
    by (simp add: waitFor_def Date_now_def)
  from waitFor_loop_run [OF this] obtain n tail where
    "history w' = history w @ concat (replicate n [FindOnScreen (Inr None),
         Sleep (with_default 500 interval)]) @ tail"
    and e: "waitFor_ending rt template config (with_default 10000 timeout) (now w) r w' tail"
    by blast
  from since_append [OF this(1)] e show ?thesis by blast
qed


section \<open>Example runs\<close>

lemmas run_simps = waitFor_def waitForGone_def waitFor_loop.simps waitForGone_loop.simps
  with_default_def Date_now_def findOnScreen_def sleep_def elapse_def timer_delay_def
  scripted_def w0_def icon_def toMatchConfigJs_def imageResourceFromBuffer_def Let_def

lemma never_run:
  "waitFor (scripted (\<lambda>t. Inr None)) icon (Some 200) (Some 50) None w0
     = (Inr None, \<lparr>now = 240, history =
          [FindOnScreen (Inr None), Sleep 50, FindOnScreen (Inr None), Sleep 50,
           FindOnScreen (Inr None), Sleep 50, FindOnScreen (Inr None), Sleep 50]\<rparr>)"
  by (simp add: run_simps)






lemma strip_search:
  "search strip_engine boot (buffer icon) None (toMatchConfigJs (Some half_sure))
     = Inr [\<lparr>mjs_x = 1, mjs_y = 0, mjs_width = 1, mjs_height = 1,
             mjs_confidence = 1, mjs_scale = 1\<rparr>]"
  by (simp add: search_def normalizeConfig_def toMatchConfigJs_def half_sure_def
      with_default_def strip_engine_def scaleSpace_def matcher_def aggregate_def
      best_first_def positions_def to_absolute_def Let_def upt_rec)

lemma strip_findAll:
  "findAllOnScreen (tego_bot strip_engine) icon (Some half_sure) boot
     = (Inr [spot], \<lparr>now = 10, history = [FindAllOnScreen (Inr [spot])]\<rparr>)"
  by (simp add: findAllOnScreen_def tego_bot_def strip_search Let_def)
    (simp add: strip_engine_def fromMatchResultJs_def spot_def elapse_def boot_def)

section \<open>Results of the native engine\<close>

lemma set_suppress: "set (suppress rival cs) \<subseteq> set cs"
  by (induction rival cs rule: suppress.induct) auto

lemma set_best_first: "set (best_first cs) = set cs"
  by (simp add: best_first_def)

lemma matcher_confident:
  "c \<in> set (matcher eng cfg haystack st) \<Longrightarrow> n_confidence cfg \<le> mjs_confidence c"
  by (cases st) (simp add: matcher_def Let_def)

lemma set_aggregate: "set (aggregate eng cfg cands) \<subseteq> set cands"
proof -
  have "set (aggregate eng cfg cands)
          \<subseteq> set (best_first (suppress (overlapping eng) (best_first cands)))"
    unfolding aggregate_def by (rule set_take_subset)
  also have "\<dots> \<subseteq> set cands"
    using set_suppress [of "overlapping eng" "best_first cands"]
    by (simp add: set_best_first)
  finally show ?thesis .
qed

lemma to_absolute_confidence: "mjs_confidence (to_absolute region c) = mjs_confidence c"
  by (simp add: to_absolute_def split: option.splits)

lemma search_confident:
  assumes "search eng w template region config = Inr cs"
    and "normalizeConfig config = Inr cfg"
    and "c \<in> set cs"
  shows "n_confidence cfg \<le> mjs_confidence c"
proof -
  from assms(1,2) obtain t haystack where
    cs: "cs = map (to_absolute region)
           (aggregate eng cfg (concat (map (matcher eng cfg haystack)
                                         (scaleSpace eng cfg t haystack))))"
    by (auto simp: search_def split: if_splits option.splits sum.splits)
  with assms(3) obtain d where d: "c = to_absolute region d"
    "d \<in> set (aggregate eng cfg (concat (map (matcher eng cfg haystack)
                                         (scaleSpace eng cfg t haystack))))"
    by auto
  from d(2) set_aggregate
  have "d \<in> set (concat (map (matcher eng cfg haystack) (scaleSpace eng cfg t haystack)))"
    by blast
  then obtain st where "d \<in> set (matcher eng cfg haystack st)"
    by auto
  from matcher_confident [OF this] d(1) show ?thesis
    by (simp add: to_absolute_confidence)
qed

lemma normalizeConfig_confidence:
  assumes "normalizeConfig (toMatchConfigJs (Some cfg)) = Inr n" and "confidence cfg = Some c"
  shows "n_confidence n = c"
  using assms
  by (auto simp: normalizeConfig_def toMatchConfigJs_def with_default_def Let_def
      split: if_splits)

lemma normalizeConfig_total:
  "search eng w template region config = Inr cs \<Longrightarrow> \<exists>n. normalizeConfig config = Inr n"
  by (auto simp: search_def split: sum.splits)

lemma fromMatchResultJs_confidence:
  "m_confidence (fromMatchResultJs res) = mjs_confidence res"
  by (simp add: fromMatchResultJs_def)

section \<open>Exact doubles\<close>

text \<open>
  An integer of fewer than 54 bits times a power of two in the exponent range is a
  double: rounding leaves it as it is. So whole numbers up to \<open>2 ^ 53\<close> in
  magnitude and halves up to \<open>2 ^ 52\<close> are exact, and \<open>2 ^ 53 + 1\<close> is not.
\<close>

lemma pow2_powi: "pow2 k = 2 powi k"
  by (simp add: pow2_def power_int_def field_simps)

lemma pow2_pos: "0 < pow2 k"
  by (simp add: pow2_def)

lemma pow2_add: "pow2 (a + b) = pow2 a * pow2 b"
  by (simp add: pow2_powi power_int_add)

lemma pow2_nat: "0 \<le> k \<Longrightarrow> pow2 k = of_int (2 ^ nat k)"
  by (simp add: pow2_def)

lemma pow2_mono: "a \<le> b \<Longrightarrow> pow2 a \<le> pow2 b"
  by (simp add: pow2_powi power_int_increasing)

lemma round_even_of_int: "round_even (of_int z) = z"
  by (simp add: round_even_def)

lemma exponent_dyadic:
  assumes "0 < h" "- 1074 \<le> j"
  shows "exponent (of_int h * pow2 j) = bitlen h - 1 + j"
proof -
  have "\<bar>real_of_int h * pow2 j\<bar> * pow2 1074 = of_int h * (pow2 j * pow2 1074)"
    using assms pow2_pos [of j] by (simp add: abs_mult)
  also have "pow2 j * pow2 1074 = pow2 (j + 1074)"
    by (simp only: pow2_add)
  also have "\<dots> = of_int (2 ^ nat (j + 1074))"
    using assms by (intro pow2_nat) simp
  finally have "\<lfloor>\<bar>real_of_int h * pow2 j\<bar> * pow2 1074\<rfloor> = h * 2 ^ nat (j + 1074)"
    by (metis floor_of_int of_int_mult)
  then have "exponent (of_int h * pow2 j) = bitlen (h * 2 ^ nat (j + 1074)) - 1075"
    by (simp only: exponent_def)
  also have "\<dots> = bitlen h + int (nat (j + 1074)) - 1075"
    using assms by (simp only: bitlen_pow2)
  finally show ?thesis using assms by simp
qed

lemma double_dyadic:
  assumes h: "\<bar>h\<bar> < 2 ^ 53" and j: "- 1074 \<le> j" "j \<le> 971"
  shows "double (of_int h * pow2 j) = Finite (of_int h * pow2 j)"
proof (cases "h = 0")
  case True
  then show ?thesis
    by (simp add: double_def Let_def round_even_def pow2_pos not_le)
next
  case False
  define v where "v = real_of_int h * pow2 j"
  define a where "a = \<bar>h\<bar>"
  have a: "0 < a" "a < 2 ^ 53" using False h by (simp_all add: a_def)
  have "exponent v = exponent (of_int a * pow2 j)"
    by (simp add: exponent_def v_def a_def abs_mult)
  also have "\<dots> = bitlen a - 1 + j"
    using a j by (intro exponent_dyadic) simp_all
  finally have e: "exponent v = bitlen a - 1 + j" .
  have "bitlen a \<le> 53"
    using a by (simp add: bitlen_le_iff_power)
  with e have "exponent v - 52 \<le> j" by simp
  moreover have "- 1022 - 52 \<le> j" using j by simp
  ultimately have k: "max (exponent v) (- 1022) - 52 \<le> j" by simp
  define k where "k = max (exponent v) (- 1022) - 52"
  from k have kj: "0 \<le> j - k" by (simp add: k_def)
  have "pow2 j = pow2 k * pow2 (j - k)"
    by (simp add: pow2_add [symmetric])
  then have "v / pow2 k = of_int h * pow2 (j - k)"
    using pow2_pos [of k] by (simp add: v_def)
  also have "\<dots> = of_int (h * 2 ^ nat (j - k))"
    using kj by (simp add: pow2_nat)
  finally have q: "v / pow2 k = of_int (h * 2 ^ nat (j - k))" .
  have "pow2 k * of_int (round_even (v / pow2 k)) = pow2 k * (v / pow2 k)"
    by (simp only: q round_even_of_int)
  also have "\<dots> = v"
    using pow2_pos [of k] by simp
  finally have r: "pow2 k * of_int (round_even (v / pow2 k)) = v" .
  have "\<bar>v\<bar> = of_int a * pow2 j"
    using pow2_pos [of j] by (simp add: v_def a_def abs_mult)
  also have "\<dots> < of_int (2 ^ 53) * pow2 j"
    using a pow2_pos [of j] by (intro mult_strict_right_mono) simp_all
  also have "\<dots> = pow2 53 * pow2 j"
    by (simp add: pow2_def)
  also have "\<dots> = pow2 (53 + j)"
    by (simp only: pow2_add)
  also have "\<dots> \<le> pow2 1024"
    using j by (intro pow2_mono) simp
  finally have "\<not> pow2 1024 \<le> \<bar>v\<bar>" by simp
  with r show ?thesis
    unfolding double_def Let_def k_def [symmetric] v_def [symmetric] by simp
qed

lemma pow2_0: "pow2 0 = 1"
  by (simp add: pow2_def)

lemma pow2_1: "pow2 1 = 2"
  by (simp add: pow2_def)

lemma pow2_m1: "pow2 (- 1) = 1 / 2"
  by (simp add: pow2_def)

lemma double_int:
  assumes "\<bar>n\<bar> \<le> 2 ^ 53"
  shows "double (of_int n) = Finite (of_int n)"
proof (cases "\<bar>n\<bar> < 2 ^ 53")
  case True
  from double_dyadic [OF True, of 0] show ?thesis by (simp add: pow2_0)
next
  case False
  with assms have "n = 2 ^ 52 * 2 \<or> n = - (2 ^ 52) * 2" by auto
  then obtain h :: int where h: "\<bar>h\<bar> < 2 ^ 53" "n = h * 2"
    by (elim disjE) (rule that [of "2 ^ 52"], simp, simp, rule that [of "- (2 ^ 52)"], simp, simp)
  from double_dyadic [OF h(1), of 1] show ?thesis by (simp add: pow2_1 h(2))
qed

lemma double_half:
  assumes "\<bar>h\<bar> \<le> 2 ^ 53"
  shows "double (of_int h / 2) = Finite (of_int h / 2)"
proof (cases "\<bar>h\<bar> < 2 ^ 53")
  case True
  from double_dyadic [OF True, of "- 1"] show ?thesis by (simp add: pow2_m1)
next
  case False
  with assms have "h = 2 ^ 53 \<or> h = - (2 ^ 53)" by auto
  then have "real_of_int h / 2 = of_int (h div 2)" "\<bar>h div 2\<bar> \<le> 2 ^ 53"
    by auto
  with double_int [of "h div 2"] show ?thesis by simp
qed

lemma js_add_exact:
  "\<bar>a + b\<bar> \<le> 2 ^ 53 \<Longrightarrow>
     js_add (num a) (num b) = Finite (real_of_int a + real_of_int b)"
  using double_int [of "a + b"] by (simp add: num_def)

lemma js_halve_exact:
  "\<bar>h\<bar> \<le> 2 ^ 53 \<Longrightarrow> js_halve (num h) = Finite (real_of_int h / 2)"
  using double_half [of h] by (simp add: num_def)

lemma center_sum:
  assumes "\<bar>w\<bar> \<le> 2 ^ 53"
    and "double (real_of_int x + real_of_int w / 2) = Finite v"
  shows "js_round (js_add (num x) (js_halve (num w))) = Finite (of_int (Math_round v))"
proof -
  have "js_add (num x) (js_halve (num w))
          = js_add (Finite (of_int x)) (Finite (of_int w / 2))"
    by (simp only: js_halve_exact [OF assms(1)]) (simp only: num_def)
  also have "\<dots> = Finite v"
    by (simp only: js_add.simps assms(2))
  finally show ?thesis by (simp only: js_round.simps)
qed

lemma center_exact:
  assumes "\<bar>w\<bar> \<le> 2 ^ 53" "\<bar>2 * x + w\<bar> \<le> 2 ^ 53"
  shows "js_round (js_add (num x) (js_halve (num w)))
           = Finite (of_int (round (real_of_int x + real_of_int w / 2)))"
proof -
  have eq: "real_of_int x + real_of_int w / 2 = of_int (2 * x + w) / 2" by simp
  have "double (real_of_int x + real_of_int w / 2)
          = Finite (real_of_int x + real_of_int w / 2)"
    unfolding eq by (rule double_half [OF assms(2)])
  from center_sum [OF assms(1) this] show ?thesis
    by (simp only: Math_round_def round_def)
qed

lemma center_even_exact:
  assumes "even w" "\<bar>w\<bar> \<le> 2 ^ 53" "\<bar>x + w div 2\<bar> \<le> 2 ^ 53"
  shows "js_round (js_add (num x) (js_halve (num w)))
           = Finite (real_of_int x + real_of_int w / 2)"
proof -
  from assms(1) obtain c where c: "w = 2 * c" by (auto elim: evenE)
  then have eq: "real_of_int x + real_of_int w / 2 = of_int (x + w div 2)" by simp
  have "double (real_of_int x + real_of_int w / 2) = Finite (of_int (x + w div 2))"
    unfolding eq by (rule double_int [OF assms(3)])
  from center_sum [OF assms(2) this]
  have "js_round (js_add (num x) (js_halve (num w)))
          = Finite (of_int (Math_round (of_int (x + w div 2))))" .
  also have "Math_round (of_int (x + w div 2)) = x + w div 2"
    by (simp add: Math_round_def)
  finally show ?thesis by (simp only: eq)
qed

lemma bitlen_54: "bitlen 9007199254740993 = 54"
proof -
  have "bitlen 9007199254740993 \<le> 54" by (simp add: bitlen_le_iff_power)
  moreover have "\<not> bitlen 9007199254740993 \<le> 53" by (simp add: bitlen_le_iff_power)
  ultimately show ?thesis by simp
qed

lemma double_past_53: "double 9007199254740993 = Finite 9007199254740992"
proof -
  have "exponent (of_int 9007199254740993 * pow2 0) = bitlen 9007199254740993 - 1 + 0"
    by (rule exponent_dyadic) simp_all
  then have e: "exponent 9007199254740993 = 53"
    by (simp add: pow2_0 bitlen_54)
  have r: "round_even (9007199254740993 / 2) = 4503599627370496"
    by (simp add: round_even_def Let_def)
  show ?thesis
    by (simp add: double_def e Let_def pow2_1 r) (simp add: pow2_def)
qed

lemma double_1: "double 1 = Finite 1"
  using double_int [of 1] by simp

section \<open>Pollers at an integer deadline\<close>

lemma waitFor_never_found:
  assumes run: "waitFor rt template timeout interval config w = (r, w')"
    and never: "\<forall>res. FindOnScreen res \<in> set (since w w') \<longrightarrow> res = Inr None"
  shows "r = Inr None
     \<and> with_default 10000 timeout \<le> now w' - now w
     \<and> (\<exists>n. since w w' = concat (replicate n [FindOnScreen (Inr None),
                                                Sleep (with_default 500 interval)]))"
proof -
  from waitFor_run [OF run] obtain n tail where
    shape: "since w w' = concat (replicate n [FindOnScreen (Inr None),
                Sleep (with_default 500 interval)]) @ tail"
    and ending: "waitFor_ending rt template config (with_default 10000 timeout) (now w)
                   r w' tail"
    by blast
  have "\<not> (\<exists>m. tail = [FindOnScreen (Inr (Some m))])"
    using never shape by auto
  moreover have "\<not> (\<exists>e. tail = [FindOnScreen (Inl e)])"
    using never shape by auto
  ultimately have "r = Inr None \<and> tail = [] \<and> with_default 10000 timeout \<le> now w' - now w"
    using ending unfolding waitFor_ending_def by blast
  with shape show ?thesis by auto
qed


section \<open>Pollers with any number as timeout\<close>

lemma waitFor_js_loop_finite:
  "waitFor_js_loop rt template (Finite t) interval config startTime w
     = Some (waitFor_loop rt template \<lceil>t\<rceil> interval config startTime w)"
proof (induction rt template "\<lceil>t\<rceil>" interval config startTime w rule: waitFor_loop.induct)
  case (1 rt template interval config startTime w)
  note total = waitFor_loop.simps [of rt template "\<lceil>t\<rceil>" interval config startTime w]
  note js = waitFor_js_loop.simps [of rt template "Finite t" interval config startTime w]
  have guard: "js_less (Date_now w - startTime) (Finite t)
                 \<longleftrightarrow> Date_now w - startTime < \<lceil>t\<rceil>"
    by (simp add: less_ceiling_iff)
  note js = js [unfolded guard]
  show ?case
  proof (cases "Date_now w - startTime < \<lceil>t\<rceil>")
    case False
    then show ?thesis by (simp add: total js)
  next
    case True
    obtain a w1 where f: "findOnScreen rt template config w = (a, w1)"
      by (cases "findOnScreen rt template config w")
    show ?thesis
    proof (cases "a = Inr None")
      case False
      with True f show ?thesis
        by (auto simp: total js split: sum.splits option.splits)
    next
      case null: True
      have f': "(a, w1) = findOnScreen rt template config w" using f by simp
      from "1.hyps" [OF True f' null refl] True f null show ?thesis
        by (simp add: total js)
    qed
  qed
qed


lemma waitFor_js_loop_returned:
  assumes "waitFor_js_loop rt template timeout interval config startTime w = Some y"
  shows "\<not> (timeout = PosInfinity
            \<and> (\<forall>w. fst (findOnScreen rt template config w) = Inr None))"
proof (rule waitFor_js_loop.raw_induct
    [where P = "\<lambda>rt template timeout interval config startTime w y.
                  \<not> (timeout = PosInfinity
                     \<and> (\<forall>w. fst (findOnScreen rt template config w) = Inr None))",
     OF _ assms], goal_cases)
  case (1 loop rt template timeout interval config startTime w y)
  show ?case
  proof
    assume hyp: "timeout = PosInfinity
                   \<and> (\<forall>w. fst (findOnScreen rt template config w) = Inr None)"
    then obtain w1 where "findOnScreen rt template config w = (Inr None, w1)"
      by (metis prod.collapse)
    with hyp 1(2)
    have "loop rt template timeout interval config startTime (sleep rt interval w1) = Some y"
      by simp
    from 1(1) [OF this] hyp show False by blast
  qed
qed

lemma waitFor_js_loop_forever:
  assumes "\<And>w. fst (findOnScreen rt template config w) = Inr None"
  shows "waitFor_js_loop rt template PosInfinity interval config startTime w = None"
proof (cases "waitFor_js_loop rt template PosInfinity interval config startTime w")
  case None
  then show ?thesis .
next
  case (Some y)
  from waitFor_js_loop_returned [OF this] assms show ?thesis by blast
qed




lemma waitFor_js_finite:
  assumes "with_default (Finite 10000) timeout = Finite t"
  shows "waitFor_js rt template timeout interval config w
           = Some (waitFor rt template (Some \<lceil>t\<rceil>) interval config w)"
  using assms
  by (simp add: waitFor_js_def waitFor_def waitFor_js_loop_finite with_default_def)


lemma ceiling_elapsed: "\<lceil>t\<rceil> \<le> e \<Longrightarrow> t \<le> real_of_int e"
  by (simp add: ceiling_le_iff)

lemma quiet_searches: "fst (findOnScreen (scripted (\<lambda>t. Inr None)) template config w) = Inr None"
  by (simp add: findOnScreen_def scripted_def Let_def)


section \<open>Properties\<close>

subsection \<open>C1\<close>

text \<open>
  Claim C1, for a finite timeout (any number but NaN and the infinities, or the default).
  \<open>waitFor\<close> returns. When every search of the run found nothing, it returns null, at
  least the timeout has elapsed on the clock since the call began, and the run consists
  of rounds of one search and one sleep of the interval, and nothing else.
\<close>

theorem waitFor_js_never_found_times_out:
  assumes "with_default (Finite 10000) timeout = Finite t"
  shows "\<exists>r w'. waitFor_js rt template timeout interval config w = Some (r, w')
           \<and> ((\<forall>res. FindOnScreen res \<in> set (since w w') \<longrightarrow> res = Inr None)
                \<longrightarrow> r = Inr None
                  \<and> t \<le> real_of_int (now w' - now w)
                  \<and> (\<exists>n. since w w' = concat (replicate n [FindOnScreen (Inr None),
                                           Sleep (with_default 500 interval)])))"
proof -
  obtain r w' where run: "waitFor rt template (Some \<lceil>t\<rceil>) interval config w = (r, w')"
    by (cases "waitFor rt template (Some \<lceil>t\<rceil>) interval config w")
  have "r = Inr None \<and> t \<le> real_of_int (now w' - now w)
      \<and> (\<exists>n. since w w' = concat (replicate n [FindOnScreen (Inr None),
                                           Sleep (with_default 500 interval)]))"
    if "\<forall>res. FindOnScreen res \<in> set (since w w') \<longrightarrow> res = Inr None"
    using waitFor_never_found [OF run that] ceiling_elapsed [of t "now w' - now w"]
    by (simp add: with_default_def)
  with waitFor_js_finite [OF assms, of rt template interval config w] run
  show ?thesis by simp
qed

theorem waitFor_js_never_found_times_out_witness:
  "waitFor_js (scripted (\<lambda>t. Inr None)) icon (Some (Finite 200)) (Some 50) None w0
     = Some (Inr None, \<lparr>now = 240, history =
          [FindOnScreen (Inr None), Sleep 50, FindOnScreen (Inr None), Sleep 50,
           FindOnScreen (Inr None), Sleep 50, FindOnScreen (Inr None), Sleep 50]\<rparr>)
   \<and> (200 :: real) \<le> real_of_int (240 - now w0)"
proof -
  let ?w' = "\<lparr>now = 240, history =
          [FindOnScreen (Inr None), Sleep 50, FindOnScreen (Inr None), Sleep 50,
           FindOnScreen (Inr None), Sleep 50, FindOnScreen (Inr None), Sleep 50]\<rparr>
          :: string world"
  have fin: "with_default (Finite 10000) (Some (Finite 200)) = Finite 200"
    by (simp add: with_default_def)
  have run: "waitFor_js (scripted (\<lambda>t. Inr None)) icon (Some (Finite 200)) (Some 50) None w0
               = Some (Inr None, ?w')"
    using never_run by (simp add: waitFor_js_finite [OF fin])
  have quiet: "\<forall>res. FindOnScreen res \<in> set (since w0 ?w') \<longrightarrow> res = Inr None"
    by (simp add: since_def w0_def)
  from waitFor_js_never_found_times_out
         [OF fin, of "scripted (\<lambda>t. Inr None)" icon "Some 50" None w0]
  obtain r w' where
    "waitFor_js (scripted (\<lambda>t. Inr None)) icon (Some (Finite 200)) (Some 50) None w0
       = Some (r, w')"
    and concl: "(\<forall>res. FindOnScreen res \<in> set (since w0 w') \<longrightarrow> res = Inr None)
                 \<longrightarrow> r = Inr None \<and> 200 \<le> real_of_int (now w' - now w0)
                   \<and> (\<exists>n. since w0 w' = concat (replicate n [FindOnScreen (Inr None),
                                           Sleep (with_default 500 (Some 50))]))"
    by blast
  with run have "r = Inr None" "w' = ?w'" by simp_all
  with concl quiet have "200 \<le> real_of_int (now ?w' - now w0)" by blast
  with run show ?thesis by simp
qed

text \<open>
  Without the restriction the claim fails. On a screen that never shows the template,
  \<open>waitFor\<close> with the timeout plus infinity never returns; with the timeout NaN it
  returns null at once, in the unchanged world: no search was made and no time has
  passed.
\<close>

theorem waitFor_js_timeout_counterexample:
  "waitFor_js (scripted (\<lambda>t. Inr None)) icon (Some PosInfinity) (Some 50) None w0 = None
   \<and> waitFor_js (scripted (\<lambda>t. Inr None)) icon (Some NaN) (Some 50) None w0
       = Some (Inr None, w0)"
proof
  show "waitFor_js (scripted (\<lambda>t. Inr None)) icon (Some PosInfinity) (Some 50) None w0 = None"
    unfolding waitFor_js_def Let_def with_default_def
    by (simp add: waitFor_js_loop_forever [OF quiet_searches])
  show "waitFor_js (scripted (\<lambda>t. Inr None)) icon (Some NaN) (Some 50) None w0
          = Some (Inr None, w0)"
    by (simp add: waitFor_js_def with_default_def
        waitFor_js_loop.simps [of _ _ NaN])
qed

subsection \<open>C2\<close>




subsection \<open>C3\<close>

text \<open>
  Claim C3. In the same world, with the same template and configuration,
  \<open>findOnScreen\<close> returns the first element of the list \<open>findAllOnScreen\<close> returns
  (and fails with the same error when that fails); it returns null exactly when the list
  is empty.
\<close>

theorem findOnScreen_is_first_of_findAllOnScreen:
  "fst (findOnScreen (tego_bot eng) template config w)
     = (case fst (findAllOnScreen (tego_bot eng) template config w) of
          Inl e \<Rightarrow> Inl e
        | Inr [] \<Rightarrow> Inr None
        | Inr (m # ms) \<Rightarrow> Inr (Some m))
   \<and> (fst (findOnScreen (tego_bot eng) template config w) = Inr None
        \<longleftrightarrow> fst (findAllOnScreen (tego_bot eng) template config w) = Inr [])"
  by (simp add: findOnScreen_def findAllOnScreen_def tego_bot_def best_def Let_def
      split: sum.splits list.splits)

subsection \<open>C4\<close>

text \<open>
  Claim C4. With a configuration whose confidence threshold is \<open>c\<close>, every result of
  \<open>findAllOnScreen\<close> has a confidence of at least \<open>c\<close>, and so has every result
  of \<open>findOnScreen\<close>, \<open>findAllInRegion\<close> and \<open>findInRegion\<close>.
\<close>

theorem search_results_meet_confidence:
  assumes "confidence cfg = Some c"
  shows "(findAllOnScreen (tego_bot eng) template (Some cfg) w = (Inr ms, w')
            \<longrightarrow> (\<forall>m \<in> set ms. c \<le> m_confidence m))
       \<and> (findOnScreen (tego_bot eng) template (Some cfg) w = (Inr (Some m), v')
            \<longrightarrow> c \<le> m_confidence m)
       \<and> (findAllInRegion (tego_bot eng) template x y width height (Some cfg) w
              = (Inr ms', w'')
            \<longrightarrow> (\<forall>m \<in> set ms'. c \<le> m_confidence m))
       \<and> (findInRegion (tego_bot eng) template x y width height (Some cfg) w
              = (Inr (Some m'), v'')
            \<longrightarrow> c \<le> m_confidence m')"
proof -
  have all: "\<forall>m \<in> set (map fromMatchResultJs cs). c \<le> m_confidence m"
    if "search eng w (buffer template) region (toMatchConfigJs (Some cfg)) = Inr cs"
    for region cs
  proof -
    from normalizeConfig_total [OF that] obtain n
      where n: "normalizeConfig (toMatchConfigJs (Some cfg)) = Inr n" by blast
    from normalizeConfig_confidence [OF n assms] search_confident [OF that n]
    show ?thesis by (simp add: fromMatchResultJs_confidence)
  qed
  have one: "c \<le> m_confidence (fromMatchResultJs res)"
    if "best (search eng w (buffer template) region (toMatchConfigJs (Some cfg)))
          = Inr (Some res)"
    for region res
  proof -
    from that obtain cs
      where cs: "search eng w (buffer template) region (toMatchConfigJs (Some cfg)) = Inr cs"
        and "res \<in> set cs"
      by (auto simp: best_def split: sum.splits list.splits)
    with all [OF cs] show ?thesis by simp
  qed
  show ?thesis
  proof (intro conjI impI)
    assume "findAllOnScreen (tego_bot eng) template (Some cfg) w = (Inr ms, w')"
    then obtain cs where "ms = map fromMatchResultJs cs"
      "search eng w (buffer template) None (toMatchConfigJs (Some cfg)) = Inr cs"
      by (auto simp: findAllOnScreen_def tego_bot_def Let_def split: sum.splits)
    with all show "\<forall>m \<in> set ms. c \<le> m_confidence m" by blast
  next
    assume "findOnScreen (tego_bot eng) template (Some cfg) w = (Inr (Some m), v')"
    then obtain res where "m = fromMatchResultJs res"
      "best (search eng w (buffer template) None (toMatchConfigJs (Some cfg)))
         = Inr (Some res)"
      by (auto simp: findOnScreen_def tego_bot_def Let_def split: sum.splits option.splits)
    with one show "c \<le> m_confidence m" by blast
  next
    assume "findAllInRegion (tego_bot eng) template x y width height (Some cfg) w
              = (Inr ms', w'')"
    then obtain cs where "ms' = map fromMatchResultJs cs"
      "search eng w (buffer template)
         (Some \<lparr>r_x = x, r_y = y, r_width = width, r_height = height\<rparr>)
         (toMatchConfigJs (Some cfg)) = Inr cs"
      by (auto simp: findAllInRegion_def tego_bot_def Let_def split: sum.splits)
    with all show "\<forall>m \<in> set ms'. c \<le> m_confidence m" by blast
  next
    assume "findInRegion (tego_bot eng) template x y width height (Some cfg) w
              = (Inr (Some m'), v'')"
    then obtain res where "m' = fromMatchResultJs res"
      "best (search eng w (buffer template)
         (Some \<lparr>r_x = x, r_y = y, r_width = width, r_height = height\<rparr>)
         (toMatchConfigJs (Some cfg))) = Inr (Some res)"
      by (auto simp: findInRegion_def tego_bot_def Let_def split: sum.splits option.splits)
    with one show "c \<le> m_confidence m'" by blast
  qed
qed

theorem search_results_meet_confidence_witness:
  "fst (findAllOnScreen (tego_bot strip_engine) icon (Some half_sure) boot) = Inr [spot]
   \<and> 1 / 2 \<le> m_confidence spot"
proof -
  have "confidence half_sure = Some (1 / 2)" by (simp add: half_sure_def)
  from search_results_meet_confidence [OF this, THEN conjunct1, rule_format, OF strip_findAll]
  show ?thesis by (simp add: strip_findAll)
qed

subsection \<open>C5\<close>



subsection \<open>C6\<close>



subsection \<open>C7\<close>

text \<open>
  Claim C7. \<open>imageResourceFromBuffer\<close> returns, for every buffer, an image resource
  that holds exactly that buffer and has no path.
\<close>

theorem imageResourceFromBuffer_keeps_bytes_no_path:
  "buffer (imageResourceFromBuffer b) = b \<and> path (imageResourceFromBuffer b) = None"
  by (simp add: imageResourceFromBuffer_def)

subsection \<open>C8\<close>



subsection \<open>C9\<close>

text \<open>
  Claim C9, within the range of exact double arithmetic. For a match whose width and
  height are at most \<open>2 ^ 53\<close> in magnitude: when \<open>x + width / 2\<close> and
  \<open>y + height / 2\<close> are at most \<open>2 ^ 52\<close> in magnitude, \<open>getMatchCenter\<close>
  returns them rounded, each to an integer nearest to the exact value; when width and
  height are even and the two values are at most \<open>2 ^ 53\<close> in magnitude, it returns
  them exactly.
\<close>

theorem getMatchCenter_rounds_in_range:
  "(\<bar>m_width m\<bar> \<le> 2 ^ 53 \<and> \<bar>m_height m\<bar> \<le> 2 ^ 53
      \<and> \<bar>2 * m_x m + m_width m\<bar> \<le> 2 ^ 53 \<and> \<bar>2 * m_y m + m_height m\<bar> \<le> 2 ^ 53
    \<longrightarrow> getMatchCenter m
          = \<lparr>p_x = Finite (of_int (round (real_of_int (m_x m) + real_of_int (m_width m) / 2))),
             p_y = Finite (of_int (round (real_of_int (m_y m) + real_of_int (m_height m) / 2)))\<rparr>
      \<and> (\<forall>k. \<bar>(real_of_int (m_x m) + real_of_int (m_width m) / 2)
                - of_int (round (real_of_int (m_x m) + real_of_int (m_width m) / 2))\<bar>
             \<le> \<bar>(real_of_int (m_x m) + real_of_int (m_width m) / 2) - real_of_int k\<bar>)
      \<and> (\<forall>k. \<bar>(real_of_int (m_y m) + real_of_int (m_height m) / 2)
                - of_int (round (real_of_int (m_y m) + real_of_int (m_height m) / 2))\<bar>
             \<le> \<bar>(real_of_int (m_y m) + real_of_int (m_height m) / 2) - real_of_int k\<bar>))
   \<and> (even (m_width m) \<and> even (m_height m)
      \<and> \<bar>m_width m\<bar> \<le> 2 ^ 53 \<and> \<bar>m_height m\<bar> \<le> 2 ^ 53
      \<and> \<bar>m_x m + m_width m div 2\<bar> \<le> 2 ^ 53 \<and> \<bar>m_y m + m_height m div 2\<bar> \<le> 2 ^ 53
    \<longrightarrow> getMatchCenter m
          = \<lparr>p_x = Finite (real_of_int (m_x m) + real_of_int (m_width m) / 2),
             p_y = Finite (real_of_int (m_y m) + real_of_int (m_height m) / 2)\<rparr>)"
proof (intro conjI impI allI)
  assume b: "\<bar>m_width m\<bar> \<le> 2 ^ 53 \<and> \<bar>m_height m\<bar> \<le> 2 ^ 53
      \<and> \<bar>2 * m_x m + m_width m\<bar> \<le> 2 ^ 53 \<and> \<bar>2 * m_y m + m_height m\<bar> \<le> 2 ^ 53"
  then show "getMatchCenter m
          = \<lparr>p_x = Finite (of_int (round (real_of_int (m_x m) + real_of_int (m_width m) / 2))),
             p_y = Finite (of_int (round (real_of_int (m_y m) + real_of_int (m_height m) / 2)))\<rparr>"
    by (simp add: getMatchCenter_def center_exact)
next
  fix k
  show "\<bar>(real_of_int (m_x m) + real_of_int (m_width m) / 2)
                - of_int (round (real_of_int (m_x m) + real_of_int (m_width m) / 2))\<bar>
             \<le> \<bar>(real_of_int (m_x m) + real_of_int (m_width m) / 2) - real_of_int k\<bar>"
    by (rule round_diff_minimal)
next
  fix k
  show "\<bar>(real_of_int (m_y m) + real_of_int (m_height m) / 2)
                - of_int (round (real_of_int (m_y m) + real_of_int (m_height m) / 2))\<bar>
             \<le> \<bar>(real_of_int (m_y m) + real_of_int (m_height m) / 2) - real_of_int k\<bar>"
    by (rule round_diff_minimal)
next
  assume "even (m_width m) \<and> even (m_height m)
      \<and> \<bar>m_width m\<bar> \<le> 2 ^ 53 \<and> \<bar>m_height m\<bar> \<le> 2 ^ 53
      \<and> \<bar>m_x m + m_width m div 2\<bar> \<le> 2 ^ 53 \<and> \<bar>m_y m + m_height m div 2\<bar> \<le> 2 ^ 53"
  then show "getMatchCenter m
          = \<lparr>p_x = Finite (real_of_int (m_x m) + real_of_int (m_width m) / 2),
             p_y = Finite (real_of_int (m_y m) + real_of_int (m_height m) / 2)\<rparr>"
    by (simp add: getMatchCenter_def center_even_exact)
qed

theorem getMatchCenter_rounds_in_range_witness:
  "getMatchCenter box = \<lparr>p_x = Finite 12, p_y = Finite 23\<rparr>
   \<and> getMatchCenter odd_box = \<lparr>p_x = Finite 13, p_y = Finite 24\<rparr>"
proof -
  have even_box: "even (m_width box) \<and> even (m_height box)
      \<and> \<bar>m_width box\<bar> \<le> 2 ^ 53 \<and> \<bar>m_height box\<bar> \<le> 2 ^ 53
      \<and> \<bar>m_x box + m_width box div 2\<bar> \<le> 2 ^ 53 \<and> \<bar>m_y box + m_height box div 2\<bar> \<le> 2 ^ 53"
    by (simp add: box_def)
  have odd: "\<bar>m_width odd_box\<bar> \<le> 2 ^ 53 \<and> \<bar>m_height odd_box\<bar> \<le> 2 ^ 53
      \<and> \<bar>2 * m_x odd_box + m_width odd_box\<bar> \<le> 2 ^ 53
      \<and> \<bar>2 * m_y odd_box + m_height odd_box\<bar> \<le> 2 ^ 53"
    by (simp add: odd_box_def)
  have r: "round (25 / 2 :: real) = 13" "round (47 / 2 :: real) = 24"
    by (simp_all add: round_def)
  from getMatchCenter_rounds_in_range [of box, THEN conjunct2, rule_format, OF even_box]
  have one: "getMatchCenter box = \<lparr>p_x = Finite 12, p_y = Finite 23\<rparr>"
    by (simp add: box_def)
  from getMatchCenter_rounds_in_range [of odd_box, THEN conjunct1, rule_format, OF odd]
  have "getMatchCenter odd_box = \<lparr>p_x = Finite 13, p_y = Finite 24\<rparr>"
    by (simp add: odd_box_def r)
  with one show ?thesis by simp
qed

text \<open>
  Beyond that range the claim fails: at \<open>x = 2 ^ 53\<close> and width 2 the sum
  \<open>x + width / 2\<close> is rounded to \<open>2 ^ 53\<close>, and the exact centre is
  \<open>2 ^ 53 + 1\<close>.
\<close>

theorem getMatchCenter_counterexample:
  "getMatchCenter far = \<lparr>p_x = Finite 9007199254740992, p_y = Finite 1\<rparr>
   \<and> round (real_of_int (m_x far) + real_of_int (m_width far) / 2) = 9007199254740993
   \<and> even (m_width far) \<and> even (m_height far)"
  by (simp add: getMatchCenter_def far_def num_def double_past_53 double_1 Math_round_def)

subsection \<open>C10\<close>

text \<open>
  Claim C10, within the range of exact double arithmetic. For a match whose
  \<open>x + width\<close> and \<open>y + height\<close> are at most \<open>2 ^ 53\<close> in magnitude,
  \<open>getMatchBounds\<close> returns left \<open>x\<close>, top \<open>y\<close>, right \<open>x + width\<close> and
  bottom \<open>y + height\<close>; so right minus left is the width, bottom minus top is the
  height, and (left, top) is \<open>(x, y)\<close>.
\<close>

theorem getMatchBounds_round_trip_in_range:
  assumes "\<bar>m_x m + m_width m\<bar> \<le> 2 ^ 53" and "\<bar>m_y m + m_height m\<bar> \<le> 2 ^ 53"
  shows "\<exists>l t r b.
           getMatchBounds m = \<lparr>left = Finite l, top = Finite t, right = Finite r,
                                bottom = Finite b\<rparr>
         \<and> l = of_int (m_x m) \<and> t = of_int (m_y m)
         \<and> r = of_int (m_x m) + of_int (m_width m)
         \<and> b = of_int (m_y m) + of_int (m_height m)
         \<and> r - l = of_int (m_width m) \<and> b - t = of_int (m_height m)"
  by (simp add: getMatchBounds_def js_add_exact [OF assms(1)] js_add_exact [OF assms(2)])
    (simp add: num_def)

theorem getMatchBounds_round_trip_in_range_witness:
  "getMatchBounds box = \<lparr>left = Finite 10, top = Finite 20, right = Finite 14,
                           bottom = Finite 26\<rparr>"
proof -
  have "\<bar>m_x box + m_width box\<bar> \<le> 2 ^ 53" "\<bar>m_y box + m_height box\<bar> \<le> 2 ^ 53"
    by (simp_all add: box_def)
  from getMatchBounds_round_trip_in_range [OF this]
  show ?thesis by (auto simp: box_def)
qed

text \<open>
  Beyond that range the claim fails: at \<open>x = 2 ^ 53 - 1\<close> and width 2 the right
  edge is rounded to \<open>2 ^ 53\<close>, one more than the left edge; at \<open>y = 2 ^ 53\<close> and
  height 1 the bottom edge equals the top edge.
\<close>

theorem getMatchBounds_round_trip_counterexample:
  "getMatchBounds edge
     = \<lparr>left = Finite 9007199254740991, top = Finite 9007199254740992,
        right = Finite 9007199254740992, bottom = Finite 9007199254740992\<rparr>
   \<and> m_width edge = 2 \<and> m_height edge = 1"
  by (simp add: getMatchBounds_def edge_def num_def double_past_53)

end
